theory Spec2Isabelle
  imports Complex_Main "HOL-Library.Char_ord" "HOL-Library.List_Lexorder" "HOL-Library.AList"
begin

section \<open>Numbers and rounding\<close>

text \<open>
  The evaluation scripts compute with Python floats. The embedding reads every float as
  the exact rational it denotes (\<^typ>\<open>rat\<close>), so \<open>a / b\<close> is exact division.
  \<open>round(x)\<close> is the nearest integer and \<open>round(x, n)\<close> keeps \<open>n\<close> decimal
  digits; both resolve an exact tie to the even neighbour, as Python does.
\<close>

definition round_half_even :: "rat \<Rightarrow> int" where
  "round_half_even y =
     (let fl = \<lfloor>y\<rfloor>;
          d = y - of_int fl
      in if d < 1 / 2 then fl
         else if 1 / 2 < d then fl + 1
         else if even fl then fl else fl + 1)"

definition py_round :: "nat \<Rightarrow> rat \<Rightarrow> rat" where
  "py_round ndigits x = of_int (round_half_even (x * 10 ^ ndigits)) / 10 ^ ndigits"

text \<open>
  \<open>mean_of\<close> of \<^verbatim>\<open>run_sweep.py\<close> and \<^verbatim>\<open>run_baseline.py\<close>:
  \<^verbatim>\<open>round(sum(values) / len(values), 4) if values else 0.0\<close>.
\<close>

definition mean_of :: "rat list \<Rightarrow> rat" where
  "mean_of vals =
     (if vals \<noteq> [] then py_round 4 (sum_list vals / of_nat (length vals)) else 0)"

section \<open>Set accuracy metric\<close>

text \<open>The dictionary \<^verbatim>\<open>{"precision": .., "recall": .., "f1": ..}\<close>.\<close>

record metrics =
  precision :: rat
  recall :: rat
  f1 :: rat

text \<open>
  \<open>compute_photo_accuracy\<close>, identical in \<^verbatim>\<open>run_sweep.py\<close> and
  \<^verbatim>\<open>run_baseline.py\<close>. Both arguments are turned into sets first.
\<close>

definition compute_photo_accuracy :: "string list \<Rightarrow> string list \<Rightarrow> metrics" where
  "compute_photo_accuracy retrieved_ids expected_ids =
     (let retrieved = set retrieved_ids;
          expected = set expected_ids
      in if expected = {} \<and> retrieved = {} then \<lparr>precision = 1, recall = 1, f1 = 1\<rparr>
         else if expected = {} then \<lparr>precision = 0, recall = 1, f1 = 0\<rparr>
         else if retrieved = {} then \<lparr>precision = 1, recall = 0, f1 = 0\<rparr>
         else
           (let tp = card (retrieved \<inter> expected);
                p = of_nat tp / of_nat (card retrieved);
                r = of_nat tp / of_nat (card expected);
                f = (if 0 < p + r then 2 * p * r / (p + r) else 0)
            in \<lparr>precision = py_round 4 p, recall = py_round 4 r, f1 = py_round 4 f\<rparr>))"

section \<open>Tag quality metric\<close>


text \<open>
  The harmonic mean as the specification words it: zero when the two values sum to
  zero. The code tests \<open>0 < p + r\<close> instead; the two agree on non-negative values.
\<close>

definition harmonic_mean :: "rat \<Rightarrow> rat \<Rightarrow> rat" where
  "harmonic_mean p r = (if p + r = 0 then 0 else 2 * p * r / (p + r))"

section \<open>Tagging benchmark: observations\<close>

text \<open>Python exceptions that the modelled code can raise.\<close>

datatype py_error = ValueError | IndexError | KeyError

text \<open>
  A record of \<^verbatim>\<open>tagging_ground_truth.jsonl\<close>: the provider's tags, each with its
  confidence and category, and the three hand-made label lists. A label list that is
  missing from the record reads as the empty list (\<^verbatim>\<open>entry.get(.., [])\<close>).
\<close>

record ai_tag =
  tag :: string
  confidence :: rat
  category :: string

record entry =
  ai_tags :: "ai_tag list"
  correct_tags :: "string list"
  incorrect_tags :: "string list"
  missing_tags :: "string list"

text \<open>
  \<^verbatim>\<open>str.lower()\<close>, on the ASCII letters: \<open>A\<close> to \<open>Z\<close> (codes 65 to 90) move to
  \<open>a\<close> to \<open>z\<close>, every other character stays.
\<close>

definition lower_char :: "char \<Rightarrow> char" where
  "lower_char c =
     (let n = (of_char c :: nat) in if 65 \<le> n \<and> n \<le> 90 then char_of (n + 32) else c)"

definition lower :: "string \<Rightarrow> string" where
  "lower s = map lower_char s"

text \<open>One element of \<open>tag_samples\<close> in \<open>analyze_thresholds\<close>.\<close>

record tag_sample =
  s_tag :: string
  s_confidence :: rat
  s_category :: string
  is_correct :: bool

text \<open>
  The body of the inner loop of \<open>analyze_thresholds\<close> for one AI tag: the sample it
  appends, or \<open>None\<close> where the loop says \<^verbatim>\<open>continue\<close>.
\<close>

definition sample_of :: "string set \<Rightarrow> string set \<Rightarrow> ai_tag \<Rightarrow> tag_sample option" where
  "sample_of correct_set incorrect_set a =
     (let tag_lower = lower (tag a) in
      if tag_lower \<in> correct_set then
        Some \<lparr>s_tag = tag a, s_confidence = confidence a, s_category = category a,
              is_correct = True\<rparr>
      else if tag_lower \<in> incorrect_set then
        Some \<lparr>s_tag = tag a, s_confidence = confidence a, s_category = category a,
              is_correct = False\<rparr>
      else None)"

definition entry_samples :: "entry \<Rightarrow> tag_sample list" where
  "entry_samples e =
     (let correct_set = set (map lower (correct_tags e));
          incorrect_set = set (map lower (incorrect_tags e))
      in List.map_filter (sample_of correct_set incorrect_set) (ai_tags e))"

definition collect_tag_samples :: "entry list \<Rightarrow> tag_sample list" where
  "collect_tag_samples ground_truth = concat (map entry_samples ground_truth)"

section \<open>Tagging benchmark: threshold sweep\<close>

text \<open>\<^verbatim>\<open>thresholds = [round(t * 0.05, 2) for t in range(0, 21)]\<close>.\<close>

definition thresholds :: "rat list" where
  "thresholds = map (\<lambda>t. py_round 2 (of_nat t * (5 / 100))) [0..<21]"

text \<open>
  One dictionary of a sweep. The overall sweep's dictionary for an empty \<open>above\<close> has
  no \<^verbatim>\<open>"recall"\<close> key: \<open>sw_recall\<close> is \<open>None\<close> there.
\<close>

record sweep_entry =
  sw_threshold :: rat
  sw_total_tags :: nat
  sw_correct :: nat
  sw_incorrect :: nat
  sw_precision :: rat
  sw_recall :: "rat option"
  sw_f1 :: rat

text \<open>The body of the overall loop (\<^verbatim>\<open>for thresh in thresholds\<close>).\<close>

definition overall_entry :: "tag_sample list \<Rightarrow> rat \<Rightarrow> sweep_entry" where
  "overall_entry tag_samples thresh =
     (let above = filter (\<lambda>s. thresh \<le> s_confidence s) tag_samples in
      if above = [] then
        \<lparr>sw_threshold = thresh, sw_total_tags = 0, sw_correct = 0, sw_incorrect = 0,
         sw_precision = 0, sw_recall = None, sw_f1 = 0\<rparr>
      else
        (let correct = length (filter is_correct above);
             incorrect = length above - correct;
             total_correct = length (filter is_correct tag_samples);
             recall_num = correct;
             recall_den = total_correct;
             p = (if above \<noteq> [] then of_nat correct / of_nat (length above) else 0);
             r = (if 0 < recall_den then of_nat recall_num / of_nat recall_den else 0);
             f = (if 0 < p + r then 2 * p * r / (p + r) else 0)
         in \<lparr>sw_threshold = thresh, sw_total_tags = length above, sw_correct = correct,
             sw_incorrect = incorrect, sw_precision = py_round 4 p,
             sw_recall = Some (py_round 4 r), sw_f1 = py_round 4 f\<rparr>))"

definition overall_sweep :: "tag_sample list \<Rightarrow> sweep_entry list" where
  "overall_sweep tag_samples = map (overall_entry tag_samples) thresholds"

text \<open>The body of the per-category loop over the thresholds.\<close>

definition category_entry :: "tag_sample list \<Rightarrow> nat \<Rightarrow> rat \<Rightarrow> sweep_entry" where
  "category_entry cat_samples total_correct_in_cat thresh =
     (let above = filter (\<lambda>s. thresh \<le> s_confidence s) cat_samples in
      if above = [] then
        \<lparr>sw_threshold = thresh, sw_total_tags = 0, sw_correct = 0, sw_incorrect = 0,
         sw_precision = 0, sw_recall = Some 0, sw_f1 = 0\<rparr>
      else
        (let correct = length (filter is_correct above);
             incorrect = length above - correct;
             p = (if above \<noteq> [] then of_nat correct / of_nat (length above) else 0);
             r = (if 0 < total_correct_in_cat
                  then of_nat correct / of_nat total_correct_in_cat else 0);
             f = (if 0 < p + r then 2 * p * r / (p + r) else 0)
         in \<lparr>sw_threshold = thresh, sw_total_tags = length above, sw_correct = correct,
             sw_incorrect = incorrect, sw_precision = py_round 4 p,
             sw_recall = Some (py_round 4 r), sw_f1 = py_round 4 f\<rparr>))"

definition category_sweep :: "tag_sample list \<Rightarrow> string \<Rightarrow> sweep_entry list" where
  "category_sweep tag_samples cat =
     (let cat_samples = filter (\<lambda>s. s_category s = cat) tag_samples;
          total_correct_in_cat = length (filter is_correct cat_samples)
      in map (category_entry cat_samples total_correct_in_cat) thresholds)"

text \<open>
  Python's \<^verbatim>\<open>max(xs, key=..)\<close>: the running maximum is replaced only by an element
  whose key is strictly greater, and an empty sequence raises \<open>ValueError\<close>.
\<close>

fun max_loop :: "('a \<Rightarrow> rat) \<Rightarrow> 'a \<Rightarrow> 'a list \<Rightarrow> 'a" where
  "max_loop key best [] = best"
| "max_loop key best (x # xs) = max_loop key (if key best < key x then x else best) xs"

definition py_max :: "('a \<Rightarrow> rat) \<Rightarrow> 'a list \<Rightarrow> py_error + 'a" where
  "py_max key xs = (case xs of [] \<Rightarrow> Inl ValueError | x # rest \<Rightarrow> Inr (max_loop key x rest))"

text \<open>
  The loop \<^verbatim>\<open>for cat in categories\<close>: it fills \<open>per_category_sweep\<close> and
  \<open>best_per_category\<close>, both in the order of the sorted categories.
\<close>

fun category_loop ::
  "tag_sample list \<Rightarrow> string list \<Rightarrow>
   py_error + ((string \<times> sweep_entry list) list \<times> (string \<times> sweep_entry) list)" where
  "category_loop tag_samples [] = Inr ([], [])"
| "category_loop tag_samples (cat # cats) =
     (let sweep = category_sweep tag_samples cat in
      case py_max sw_f1 sweep of
        Inl err \<Rightarrow> Inl err
      | Inr best \<Rightarrow>
          (case category_loop tag_samples cats of
             Inl err \<Rightarrow> Inl err
           | Inr (sweeps, bests) \<Rightarrow> Inr ((cat, sweep) # sweeps, (cat, best) # bests)))"

text \<open>One half of \<^verbatim>\<open>"confidence_distribution"\<close>, computed from a sorted list.\<close>

record conf_summary =
  cs_count :: nat
  cs_min :: "rat option"
  cs_max :: "rat option"
  cs_mean :: "rat option"
  cs_median :: "rat option"

definition summarize_confs :: "rat list \<Rightarrow> conf_summary" where
  "summarize_confs confs =
     \<lparr>cs_count = length confs,
      cs_min = (if confs \<noteq> [] then Some (py_round 4 (Min (set confs))) else None),
      cs_max = (if confs \<noteq> [] then Some (py_round 4 (Max (set confs))) else None),
      cs_mean = (if confs \<noteq> []
                 then Some (py_round 4 (sum_list confs / of_nat (length confs))) else None),
      cs_median = (if confs \<noteq> []
                   then Some (py_round 4 (confs ! (length confs div 2))) else None)\<rparr>"

record threshold_analysis =
  total_tag_samples :: nat
  total_correct :: nat
  total_incorrect :: nat
  ta_overall_sweep :: "sweep_entry list"
  best_overall_threshold :: sweep_entry
  per_category_sweep :: "(string \<times> sweep_entry list) list"
  best_per_category_threshold :: "(string \<times> sweep_entry) list"
  dist_correct :: conf_summary
  dist_incorrect :: conf_summary

definition analyze_thresholds :: "entry list \<Rightarrow> py_error + threshold_analysis" where
  "analyze_thresholds ground_truth =
     (let tag_samples = collect_tag_samples ground_truth;
          sweep = overall_sweep tag_samples
      in case py_max sw_f1 sweep of
           Inl err \<Rightarrow> Inl err
         | Inr best_overall \<Rightarrow>
             (let categories = sorted_list_of_set (set (map s_category tag_samples)) in
              case category_loop tag_samples categories of
                Inl err \<Rightarrow> Inl err
              | Inr (sweeps, bests) \<Rightarrow>
                  (let correct_confs =
                         sort (map s_confidence (filter is_correct tag_samples));
                       incorrect_confs =
                         sort (map s_confidence (filter (\<lambda>s. \<not> is_correct s) tag_samples))
                   in Inr \<lparr>total_tag_samples = length tag_samples,
                           total_correct = length (filter is_correct tag_samples),
                           total_incorrect =
                             length (filter (\<lambda>s. \<not> is_correct s) tag_samples),
                           ta_overall_sweep = sweep,
                           best_overall_threshold = best_overall,
                           per_category_sweep = sweeps,
                           best_per_category_threshold = bests,
                           dist_correct = summarize_confs correct_confs,
                           dist_incorrect = summarize_confs incorrect_confs\<rparr>)))"







text \<open>
  The selection rule as the specification words it: \<open>best\<close> is the entry of an axis
  point, no entry of the sweep has a greater F1, every entry scanned before it has a
  smaller F1, and so its threshold is the lowest among the entries of maximal F1.
\<close>

definition selected_optimum :: "sweep_entry list \<Rightarrow> sweep_entry \<Rightarrow> bool" where
  "selected_optimum sweep best \<longleftrightarrow>
     (\<exists>i\<in>{0..<length sweep}.
        best = sweep ! i \<and> sw_threshold best = thresholds ! i \<and>
        (\<forall>j\<in>{0..<length sweep}. sw_f1 (sweep ! j) \<le> sw_f1 best) \<and>
        (\<forall>j\<in>{0..<i}. sw_f1 (sweep ! j) < sw_f1 best)) \<and>
     sw_threshold best \<in> set thresholds \<and>
     (\<forall>e\<in>set sweep. sw_f1 e = sw_f1 best \<longrightarrow> sw_threshold best \<le> sw_threshold e)"

section \<open>Retrieval evaluation: one parameter combination\<close>

text \<open>A record of \<^verbatim>\<open>rag_golden.jsonl\<close>.\<close>

record golden_entry =
  gq_question :: string
  gq_category :: string
  gq_expected_photo_ids :: "string list"

text \<open>The \<^verbatim>\<open>searchParams\<close> override of a request.\<close>

record search_params =
  sp_k :: int
  sp_minScore :: rat
  sp_relativeCutoff :: rat

text \<open>
  The \<^verbatim>\<open>"data"\<close> object of a reply, with the defaults of \<^verbatim>\<open>.get\<close> applied: the
  identifiers of \<^verbatim>\<open>"photos"\<close> (empty when the key is missing), the text of
  \<^verbatim>\<open>"response"\<close>, and the dictionaries \<^verbatim>\<open>"latency"\<close> and \<^verbatim>\<open>"usage"\<close> (empty when
  missing).
\<close>

record chat_data =
  cd_photos :: "string list"
  cd_response :: string
  cd_latency :: "(string \<times> rat) list"
  cd_usage :: "(string \<times> nat) list"

text \<open>
  \<open>query_chat\<close> is the call of the inference endpoint. It is a parameter of the model:
  it takes the question, the optional group identifiers and the optional search
  parameters, and returns \<open>Inr\<close> with the reply, or \<open>Inl\<close> with the message of the
  exception that \<^verbatim>\<open>requests.post\<close>, \<^verbatim>\<open>raise_for_status\<close> or \<^verbatim>\<open>resp.json\<close> raised
  (network error, timeout, non-2xx status, malformed JSON).
\<close>

type_synonym chat_client =
  "string \<Rightarrow> string list option \<Rightarrow> search_params option \<Rightarrow> string + chat_data"

definition GROUP_IDS :: "string list" where
  "GROUP_IDS = [''9c8d74a6-e5fc-4ee1-a898-bddaaaa0d4f2'']"

text \<open>\<^verbatim>\<open>d.get(key, 0)\<close> on a dictionary of numbers.\<close>

definition get_or_zero :: "(string \<times> 'a::zero) list \<Rightarrow> string \<Rightarrow> 'a" where
  "get_or_zero d key = (case map_of d key of Some v \<Rightarrow> v | None \<Rightarrow> 0)"

text \<open>One element of \<open>per_query\<close> in \<open>run_combo\<close>.\<close>

record query_result =
  qr_question :: string
  qr_category :: string
  qr_expected_count :: nat
  qr_retrieved_count :: nat
  qr_precision :: rat
  qr_recall :: rat
  qr_f1 :: rat
  qr_error :: "string option"

text \<open>The variables that the query loop of \<open>run_combo\<close> updates.\<close>

record combo_state =
  st_per_query :: "query_result list"
  st_total_input_tokens :: nat
  st_total_output_tokens :: nat
  st_latencies :: "rat list"

text \<open>
  The body of the query loop: the \<^verbatim>\<open>try\<close> block when \<open>query_chat\<close> returns, the
  \<^verbatim>\<open>except Exception\<close> block when it raises. The pause between two queries
  (\<^verbatim>\<open>time.sleep\<close>) has no effect on the values and is left out.
\<close>

definition combo_step ::
  "chat_client \<Rightarrow> search_params \<Rightarrow> combo_state \<Rightarrow> golden_entry \<Rightarrow> combo_state" where
  "combo_step query_chat search_params st entry =
     (let question = gq_question entry;
          category = gq_category entry;
          group_ids = (if category = ''group-based'' then Some GROUP_IDS else None)
      in case query_chat question group_ids (Some search_params) of
           Inr data \<Rightarrow>
             (let retrieved_ids = cd_photos data;
                  accuracy = compute_photo_accuracy retrieved_ids (gq_expected_photo_ids entry);
                  usage = cd_usage data;
                  latency = cd_latency data
              in \<lparr>st_per_query = st_per_query st @
                     [\<lparr>qr_question = question, qr_category = category,
                       qr_expected_count = length (gq_expected_photo_ids entry),
                       qr_retrieved_count = length retrieved_ids,
                       qr_precision = precision accuracy, qr_recall = recall accuracy,
                       qr_f1 = f1 accuracy, qr_error = None\<rparr>],
                  st_total_input_tokens =
                    st_total_input_tokens st + get_or_zero usage ''inputTokens'',
                  st_total_output_tokens =
                    st_total_output_tokens st + get_or_zero usage ''outputTokens'',
                  st_latencies =
                    (case map_of latency ''totalMs'' of
                       Some ms \<Rightarrow> st_latencies st @ [ms]
                     | None \<Rightarrow> st_latencies st)\<rparr>)
         | Inl e \<Rightarrow>
             st\<lparr>st_per_query := st_per_query st @
                  [\<lparr>qr_question = question, qr_category = category,
                    qr_expected_count = length (gq_expected_photo_ids entry),
                    qr_retrieved_count = 0,
                    qr_precision = 0, qr_recall = 0, qr_f1 = 0, qr_error = Some e\<rparr>]\<rparr>)"

text \<open>
  \<^verbatim>\<open>categories.setdefault(cat, []).append(q)\<close> on a dictionary kept as an association
  list in insertion order.
\<close>

fun setdefault_append :: "string \<Rightarrow> 'a \<Rightarrow> (string \<times> 'a list) list \<Rightarrow> (string \<times> 'a list) list"
  where
  "setdefault_append cat q [] = [(cat, [q])]"
| "setdefault_append cat q ((c, qs) # rest) =
     (if c = cat then (c, qs @ [q]) # rest else (c, qs) # setdefault_append cat q rest)"

definition group_by_category :: "('a \<Rightarrow> string) \<Rightarrow> 'a list \<Rightarrow> (string \<times> 'a list) list" where
  "group_by_category cat_of qs = foldl (\<lambda>categories q. setdefault_append (cat_of q) q categories) [] qs"

text \<open>One value of \<open>by_category\<close>: the three means and the number of queries.\<close>

record category_summary = metrics +
  cs_queries :: nat

record combo_result =
  cr_params :: search_params
  cr_overall :: metrics
  cr_by_category :: "(string \<times> category_summary) list"
  cr_total_input_tokens :: nat
  cr_total_output_tokens :: nat
  cr_avg_latency_ms :: int
  cr_per_query :: "query_result list"

definition run_combo ::
  "chat_client \<Rightarrow> golden_entry list \<Rightarrow> int \<Rightarrow> rat \<Rightarrow> rat \<Rightarrow> rat \<Rightarrow> combo_result" where
  "run_combo query_chat golden k min_score rel_cutoff delay =
     (let search_params = \<lparr>sp_k = k, sp_minScore = min_score, sp_relativeCutoff = rel_cutoff\<rparr>;
          st = foldl (combo_step query_chat search_params)
                 \<lparr>st_per_query = [], st_total_input_tokens = 0, st_total_output_tokens = 0,
                  st_latencies = []\<rparr> golden;
          per_query = st_per_query st;
          precisions = map qr_precision per_query;
          recalls = map qr_recall per_query;
          f1s = map qr_f1 per_query;
          categories = group_by_category qr_category per_query;
          by_category =
            map (\<lambda>(cat, queries).
                   (cat, \<lparr>precision = mean_of (map qr_precision queries),
                          recall = mean_of (map qr_recall queries),
                          f1 = mean_of (map qr_f1 queries),
                          cs_queries = length queries\<rparr>))
              (sort_key fst categories)
      in \<lparr>cr_params = search_params,
          cr_overall = \<lparr>precision = mean_of precisions, recall = mean_of recalls,
                        f1 = mean_of f1s\<rparr>,
          cr_by_category = by_category,
          cr_total_input_tokens = st_total_input_tokens st,
          cr_total_output_tokens = st_total_output_tokens st,
          cr_avg_latency_ms =
            (if st_latencies st \<noteq> [] then round_half_even (mean_of (st_latencies st)) else 0),
          cr_per_query = per_query\<rparr>)"

section \<open>Retrieval evaluation: the baseline run\<close>

text \<open>
  One element of \<open>raw_results\<close> in \<open>main\<close> of \<^verbatim>\<open>run_baseline.py\<close>, and the same
  element once step 2 has added \<^verbatim>\<open>"photo_accuracy"\<close>. The context strings, which only
  the optional LLM-judged metrics read, are left out; the model follows the run with
  \<^verbatim>\<open>--skip-ragas\<close>.
\<close>

record raw_result =
  rr_question :: string
  rr_category :: string
  rr_expected_photo_ids :: "string list"
  rr_retrieved_photo_ids :: "string list"
  rr_response_text :: string
  rr_latency :: "(string \<times> rat) list"
  rr_usage :: "(string \<times> nat) list"

record scored_result = raw_result +
  rr_photo_accuracy :: metrics

text \<open>The body of the query loop of the baseline (step 1).\<close>

definition baseline_step :: "chat_client \<Rightarrow> raw_result list \<Rightarrow> golden_entry \<Rightarrow> raw_result list"
  where
  "baseline_step query_chat raw_results entry =
     (let question = gq_question entry;
          category = gq_category entry;
          group_ids = (if category = ''group-based'' then Some GROUP_IDS else None)
      in case query_chat question group_ids None of
           Inr data \<Rightarrow>
             raw_results @
               [\<lparr>rr_question = question, rr_category = category,
                 rr_expected_photo_ids = gq_expected_photo_ids entry,
                 rr_retrieved_photo_ids = cd_photos data,
                 rr_response_text = cd_response data,
                 rr_latency = cd_latency data, rr_usage = cd_usage data\<rparr>]
         | Inl e \<Rightarrow>
             raw_results @
               [\<lparr>rr_question = question, rr_category = category,
                 rr_expected_photo_ids = gq_expected_photo_ids entry,
                 rr_retrieved_photo_ids = [],
                 rr_response_text = ''ERROR: '' @ e,
                 rr_latency = [], rr_usage = []\<rparr>])"

text \<open>Step 2: every raw result is scored with the set accuracy metric.\<close>

definition score_result :: "raw_result \<Rightarrow> scored_result" where
  "score_result r =
     \<lparr>rr_question = rr_question r, rr_category = rr_category r,
      rr_expected_photo_ids = rr_expected_photo_ids r,
      rr_retrieved_photo_ids = rr_retrieved_photo_ids r,
      rr_response_text = rr_response_text r,
      rr_latency = rr_latency r, rr_usage = rr_usage r,
      rr_photo_accuracy =
        compute_photo_accuracy (rr_retrieved_photo_ids r) (rr_expected_photo_ids r)\<rparr>"

record baseline_overall =
  bo_photo_accuracy :: metrics
  bo_avg_latency_ms :: int
  bo_total_input_tokens :: nat
  bo_total_output_tokens :: nat

text \<open>\<open>aggregate_results\<close> with \<open>ragas_enabled = False\<close>.\<close>

definition aggregate_results ::
  "scored_result list \<Rightarrow> baseline_overall \<times> (string \<times> category_summary) list" where
  "aggregate_results per_query =
     (let categories = group_by_category rr_category per_query;
          by_category =
            map (\<lambda>(cat, queries).
                   (cat, \<lparr>precision = mean_of (map (\<lambda>q. precision (rr_photo_accuracy q)) queries),
                          recall = mean_of (map (\<lambda>q. recall (rr_photo_accuracy q)) queries),
                          f1 = mean_of (map (\<lambda>q. f1 (rr_photo_accuracy q)) queries),
                          cs_queries = length queries\<rparr>))
              (sort_key fst categories);
          overall_acc =
            \<lparr>precision = mean_of (map (\<lambda>q. precision (rr_photo_accuracy q)) per_query),
             recall = mean_of (map (\<lambda>q. recall (rr_photo_accuracy q)) per_query),
             f1 = mean_of (map (\<lambda>q. f1 (rr_photo_accuracy q)) per_query)\<rparr>;
          latencies =
            map (\<lambda>q. get_or_zero (rr_latency q) ''totalMs'')
              (filter (\<lambda>q. rr_latency q \<noteq> []) per_query);
          total_input =
            sum_list (map (\<lambda>q. get_or_zero (rr_usage q) ''inputTokens'')
                        (filter (\<lambda>q. rr_usage q \<noteq> []) per_query));
          total_output =
            sum_list (map (\<lambda>q. get_or_zero (rr_usage q) ''outputTokens'')
                        (filter (\<lambda>q. rr_usage q \<noteq> []) per_query))
      in (\<lparr>bo_photo_accuracy = overall_acc,
           bo_avg_latency_ms = round_half_even (mean_of latencies),
           bo_total_input_tokens = total_input,
           bo_total_output_tokens = total_output\<rparr>,
          by_category))"

record baseline_output =
  out_overall :: baseline_overall
  out_by_category :: "(string \<times> category_summary) list"
  out_per_query :: "scored_result list"

definition baseline_main :: "chat_client \<Rightarrow> golden_entry list \<Rightarrow> baseline_output" where
  "baseline_main query_chat golden =
     (let raw_results = foldl (baseline_step query_chat) [] golden;
          per_query_output = map score_result raw_results;
          (overall, by_category) = aggregate_results per_query_output
      in \<lparr>out_overall = overall, out_by_category = by_category,
          out_per_query = per_query_output\<rparr>)"

section \<open>Grid sweep driver\<close>
























section \<open>Example inputs\<close>


definition failing_client :: chat_client where
  "failing_client question group_ids search_params = Inl ''timeout''"


definition negative_golden :: "golden_entry list" where
  "negative_golden =
     [\<lparr>gq_question = ''q3'', gq_category = ''negative'', gq_expected_photo_ids = []\<rparr>,
      \<lparr>gq_question = ''q4'', gq_category = ''people'', gq_expected_photo_ids = [''p1'']\<rparr>]"






section \<open>Properties of the metrics\<close>

lemma py_round_0 [simp]: "py_round n 0 = 0"
  by (simp add: py_round_def round_half_even_def)

lemma py_round_1 [simp]: "py_round n 1 = 1"
  by (simp add: py_round_def round_half_even_def Let_def)

lemma harmonic_mean_code:
  "0 \<le> p \<Longrightarrow> 0 \<le> r \<Longrightarrow> (if 0 < p + r then 2 * p * r / (p + r) else 0) = harmonic_mean p r"
  by (auto simp: harmonic_mean_def)












section \<open>Properties of the threshold sweep\<close>

lemma max_loop_mem: "max_loop key b xs \<in> set (b # xs)"
  by (induction xs arbitrary: b) auto

lemma max_loop_ge_init: "key b \<le> key (max_loop key b xs)"
proof (induction xs arbitrary: b)
  case Nil
  show ?case by simp
next
  case (Cons x xs)
  show ?case
  proof (cases "key b < key x")
    case True
    have "key x \<le> key (max_loop key x xs)" by (rule Cons.IH)
    with True show ?thesis by simp
  next
    case False
    then show ?thesis using Cons.IH [of b] by simp
  qed
qed

lemma max_loop_ge: "x \<in> set (b # xs) \<Longrightarrow> key x \<le> key (max_loop key b xs)"
proof (induction xs arbitrary: b)
  case Nil
  then show ?case by simp
next
  case (Cons y ys)
  let ?b' = "if key b < key y then y else b"
  have step: "max_loop key b (y # ys) = max_loop key ?b' ys" by simp
  have init: "key ?b' \<le> key (max_loop key ?b' ys)" by (rule max_loop_ge_init)
  from Cons.prems consider "x = b" | "x = y" | "x \<in> set ys" by auto
  then show ?case
  proof cases
    case 1
    then have "key x \<le> key ?b'" by simp
    from this init show ?thesis unfolding step by (rule order_trans)
  next
    case 2
    then have "key x \<le> key ?b'" by simp
    from this init show ?thesis unfolding step by (rule order_trans)
  next
    case 3
    then have "x \<in> set (?b' # ys)" by simp
    then show ?thesis unfolding step by (rule Cons.IH)
  qed
qed

lemma max_loop_first:
  "\<exists>i<length (b # xs). (b # xs) ! i = max_loop key b xs \<and>
      (\<forall>j<i. key ((b # xs) ! j) < key (max_loop key b xs))"
proof (induction xs arbitrary: b)
  case Nil
  show ?case by simp
next
  case (Cons y ys)
  show ?case
  proof (cases "key b < key y")
    case True
    then have step: "max_loop key b (y # ys) = max_loop key y ys" by simp
    from Cons.IH [of y] obtain i where i: "i < length (y # ys)"
      "(y # ys) ! i = max_loop key y ys"
      "\<forall>j<i. key ((y # ys) ! j) < key (max_loop key y ys)" by blast
    have "key b < key (max_loop key y ys)"
      using True max_loop_ge_init [of key y ys] by simp
    with i have "\<forall>j<Suc i. key ((b # y # ys) ! j) < key (max_loop key y ys)"
      by (auto simp: less_Suc_eq_0_disj)
    with i show ?thesis unfolding step
      by (intro exI [of _ "Suc i"]) simp
  next
    case False
    then have step: "max_loop key b (y # ys) = max_loop key b ys" by simp
    from Cons.IH [of b] obtain i where i: "i < length (b # ys)"
      "(b # ys) ! i = max_loop key b ys"
      "\<forall>j<i. key ((b # ys) ! j) < key (max_loop key b ys)" by blast
    show ?thesis
    proof (cases i)
      case 0
      with i show ?thesis unfolding step by (intro exI [of _ 0]) simp
    next
      case (Suc k)
      with i have b_less: "key b < key (max_loop key b ys)" by auto
      with False have y_less: "key y < key (max_loop key b ys)" by simp
      have "\<forall>j<Suc i. key ((b # y # ys) ! j) < key (max_loop key b ys)"
      proof (intro allI impI)
        fix j assume j: "j < Suc i"
        show "key ((b # y # ys) ! j) < key (max_loop key b ys)"
        proof (cases j)
          case 0
          with b_less show ?thesis by simp
        next
          case (Suc j')
          show ?thesis
          proof (cases j')
            case 0
            with Suc y_less show ?thesis by simp
          next
            case (Suc j'')
            with \<open>j = Suc j'\<close> j have "j' < i" by simp
            with i(3) have "key ((b # ys) ! j') < key (max_loop key b ys)" by blast
            with Suc \<open>j = Suc j'\<close> show ?thesis by simp
          qed
        qed
      qed
      moreover have "(b # y # ys) ! Suc i = max_loop key b ys"
        using i(2) Suc by simp
      moreover have "Suc i < length (b # y # ys)" using i(1) by simp
      ultimately show ?thesis unfolding step by blast
    qed
  qed
qed


lemma thresholds_eval:
  "thresholds = [0, 1 / 20, 1 / 10, 3 / 20, 1 / 5, 1 / 4, 3 / 10, 7 / 20, 2 / 5, 9 / 20,
     1 / 2, 11 / 20, 3 / 5, 13 / 20, 7 / 10, 3 / 4, 4 / 5, 17 / 20, 9 / 10, 19 / 20, 1]"
  by code_simp

lemma length_thresholds: "length thresholds = 21"
  by (simp add: thresholds_def)

lemma sorted_thresholds: "sorted thresholds"
  unfolding thresholds_eval by simp

lemma py_max_first:
  assumes "xs \<noteq> []"
  shows "\<exists>m i. py_max key xs = Inr m \<and> i < length xs \<and> xs ! i = m \<and>
           (\<forall>j<length xs. key (xs ! j) \<le> key m) \<and> (\<forall>j<i. key (xs ! j) < key m)"
proof -
  from assms obtain b rest where xs: "xs = b # rest" by (cases xs) auto
  let ?m = "max_loop key b rest"
  from max_loop_first [of b rest key] obtain i where
    i: "i < length (b # rest)" "(b # rest) ! i = ?m" "\<forall>j<i. key ((b # rest) ! j) < key ?m"
    by blast
  have "\<forall>j<length (b # rest). key ((b # rest) ! j) \<le> key ?m"
    using max_loop_ge [of _ b rest key] nth_mem by blast
  with i show ?thesis unfolding xs py_max_def by auto
qed

lemma selected_optimum_py_max:
  assumes sweep: "sweep = map f thresholds" and f: "\<And>t. sw_threshold (f t) = t"
  shows "\<exists>best. py_max sw_f1 sweep = Inr best \<and> selected_optimum sweep best"
proof -
  have len: "length sweep = 21" by (simp add: sweep length_thresholds)
  then have "sweep \<noteq> []" by auto
  from py_max_first [OF this, of sw_f1] obtain m i where
    m: "py_max sw_f1 sweep = Inr m" "i < length sweep" "sweep ! i = m"
       "\<forall>j<length sweep. sw_f1 (sweep ! j) \<le> sw_f1 m" "\<forall>j<i. sw_f1 (sweep ! j) < sw_f1 m"
    by blast
  have thr: "sw_threshold (sweep ! j) = thresholds ! j" if "j < length sweep" for j
    using that by (simp add: sweep f)
  have lowest: "sw_threshold m \<le> sw_threshold e" if e: "e \<in> set sweep" "sw_f1 e = sw_f1 m" for e
  proof -
    from e(1) obtain j where j: "j < length sweep" "sweep ! j = e"
      by (auto simp: in_set_conv_nth)
    have "\<not> j < i" using m(5) j e(2) by auto
    then have "i \<le> j" by simp
    then have "thresholds ! i \<le> thresholds ! j"
      using sorted_thresholds j(1) len length_thresholds by (simp add: sorted_nth_mono)
    then show ?thesis using thr [OF j(1)] thr [OF m(2)] j(2) m(3) by simp
  qed
  have "sw_threshold m \<in> set thresholds"
    using thr [OF m(2)] m(2,3) len length_thresholds by (metis nth_mem)
  with m lowest thr [OF m(2)] have "selected_optimum sweep m"
    unfolding selected_optimum_def by auto
  with m(1) show ?thesis by blast
qed

lemma selected_optimum_unique:
  assumes "selected_optimum sweep b" and "selected_optimum sweep b'"
  shows "b = b'"
proof -
  from assms(1) obtain i where i: "i < length sweep" "b = sweep ! i"
    "\<forall>j<length sweep. sw_f1 (sweep ! j) \<le> sw_f1 b" "\<forall>j<i. sw_f1 (sweep ! j) < sw_f1 b"
    unfolding selected_optimum_def by auto
  from assms(2) obtain k where k: "k < length sweep" "b' = sweep ! k"
    "\<forall>j<length sweep. sw_f1 (sweep ! j) \<le> sw_f1 b'" "\<forall>j<k. sw_f1 (sweep ! j) < sw_f1 b'"
    unfolding selected_optimum_def by auto
  have "\<not> i < k"
  proof
    assume "i < k"
    with k(4) i(2) have "sw_f1 b < sw_f1 b'" by auto
    moreover from i(3) k(1,2) have "sw_f1 b' \<le> sw_f1 b" by auto
    ultimately show False by simp
  qed
  moreover have "\<not> k < i"
  proof
    assume "k < i"
    with i(4) k(2) have "sw_f1 b' < sw_f1 b" by auto
    moreover from k(3) i(1,2) have "sw_f1 b \<le> sw_f1 b'" by auto
    ultimately show False by simp
  qed
  ultimately have "i = k" by simp
  with i(2) k(2) show ?thesis by simp
qed

lemma sw_threshold_overall_entry: "sw_threshold (overall_entry samples t) = t"
  by (simp add: overall_entry_def Let_def)

lemma sw_threshold_category_entry: "sw_threshold (category_entry samples n t) = t"
  by (simp add: category_entry_def Let_def)

lemma overall_sweep_optimum:
  "\<exists>best. py_max sw_f1 (overall_sweep samples) = Inr best \<and>
          selected_optimum (overall_sweep samples) best"
  by (rule selected_optimum_py_max [where f = "overall_entry samples"])
     (simp_all add: overall_sweep_def sw_threshold_overall_entry)

lemma category_sweep_optimum:
  "\<exists>best. py_max sw_f1 (category_sweep samples cat) = Inr best \<and>
          selected_optimum (category_sweep samples cat) best"
  unfolding category_sweep_def Let_def
  by (rule selected_optimum_py_max [OF refl]) (rule sw_threshold_category_entry)

lemma category_loop_optimum:
  "\<exists>sweeps bests. category_loop samples cats = Inr (sweeps, bests) \<and>
     sweeps = map (\<lambda>c. (c, category_sweep samples c)) cats \<and>
     list_all2 (\<lambda>(c, sweep) (c', best). c' = c \<and> selected_optimum sweep best) sweeps bests"
proof (induction cats)
  case Nil
  show ?case by simp
next
  case (Cons cat cats)
  from category_sweep_optimum [of samples cat] obtain best where
    best: "py_max sw_f1 (category_sweep samples cat) = Inr best"
          "selected_optimum (category_sweep samples cat) best" by blast
  from Cons.IH obtain sweeps bests where
    rest: "category_loop samples cats = Inr (sweeps, bests)"
          "sweeps = map (\<lambda>c. (c, category_sweep samples c)) cats"
          "list_all2 (\<lambda>(c, sweep) (c', best). c' = c \<and> selected_optimum sweep best) sweeps bests"
    by blast
  have "category_loop samples (cat # cats) =
          Inr ((cat, category_sweep samples cat) # sweeps, (cat, best) # bests)"
    using best(1) rest(1) by (simp add: Let_def)
  with best(2) rest(2,3) show ?case by simp
qed

text \<open>
  Claim C4. The analyzer always returns. In the overall scope and in every category,
  the selected entry is the entry of an axis point of maximal F1 in that scope's sweep,
  every axis point scanned before it has a strictly smaller F1, and its threshold is
  the lowest among the maximizers. The rule leaves no choice: two entries that both
  satisfy it for the same sweep are equal, so the same corpus always gives the same
  selection.
\<close>

theorem best_threshold_selection:
  "(\<exists>a. analyze_thresholds gt = Inr a) \<and>
   (analyze_thresholds gt = Inr a \<longrightarrow>
      ta_overall_sweep a = overall_sweep (collect_tag_samples gt) \<and>
      selected_optimum (ta_overall_sweep a) (best_overall_threshold a) \<and>
      per_category_sweep a =
        map (\<lambda>c. (c, category_sweep (collect_tag_samples gt) c))
          (sorted_list_of_set (set (map s_category (collect_tag_samples gt)))) \<and>
      list_all2 (\<lambda>(c, sweep) (c', best). c' = c \<and> selected_optimum sweep best)
        (per_category_sweep a) (best_per_category_threshold a)) \<and>
   (selected_optimum sweep b \<and> selected_optimum sweep b' \<longrightarrow> b = b')"
proof -
  let ?samples = "collect_tag_samples gt"
  let ?cats = "sorted_list_of_set (set (map s_category ?samples))"
  from overall_sweep_optimum [of ?samples] obtain best where
    best: "py_max sw_f1 (overall_sweep ?samples) = Inr best"
          "selected_optimum (overall_sweep ?samples) best" by blast
  from category_loop_optimum [of ?samples ?cats] obtain sweeps bests where
    loop: "category_loop ?samples ?cats = Inr (sweeps, bests)"
          "sweeps = map (\<lambda>c. (c, category_sweep ?samples c)) ?cats"
          "list_all2 (\<lambda>(c, sweep) (c', best). c' = c \<and> selected_optimum sweep best) sweeps bests"
    by blast
  obtain r where r: "analyze_thresholds gt = Inr r"
    "ta_overall_sweep r = overall_sweep ?samples" "best_overall_threshold r = best"
    "per_category_sweep r = sweeps" "best_per_category_threshold r = bests"
    using best(1) loop(1) by (simp add: analyze_thresholds_def Let_def)
  have "analyze_thresholds gt = Inr a \<longrightarrow>
      ta_overall_sweep a = overall_sweep ?samples \<and>
      selected_optimum (ta_overall_sweep a) (best_overall_threshold a) \<and>
      per_category_sweep a = map (\<lambda>c. (c, category_sweep ?samples c)) ?cats \<and>
      list_all2 (\<lambda>(c, sweep) (c', best). c' = c \<and> selected_optimum sweep best)
        (per_category_sweep a) (best_per_category_threshold a)"
  proof
    assume "analyze_thresholds gt = Inr a"
    with r(1) have "a = r" by simp
    with r best(2) loop(2,3) show "ta_overall_sweep a = overall_sweep ?samples \<and>
      selected_optimum (ta_overall_sweep a) (best_overall_threshold a) \<and>
      per_category_sweep a = map (\<lambda>c. (c, category_sweep ?samples c)) ?cats \<and>
      list_all2 (\<lambda>(c, sweep) (c', best). c' = c \<and> selected_optimum sweep best)
        (per_category_sweep a) (best_per_category_threshold a)" by simp
  qed
  moreover have "selected_optimum sweep b \<and> selected_optimum sweep b' \<longrightarrow> b = b'"
    using selected_optimum_unique by blast
  ultimately show ?thesis using r(1) by blast
qed


theorem best_threshold_selection_witness:
  "(case analyze_thresholds
      [\<lparr>ai_tags = [\<lparr>tag = ''Cat'', confidence = 9 / 10, category = ''object''\<rparr>,
                   \<lparr>tag = ''dog'', confidence = 3 / 10, category = ''object''\<rparr>],
        correct_tags = [''cat''], incorrect_tags = [''Dog''], missing_tags = []\<rparr>] of
      Inl err \<Rightarrow> False
    | Inr a \<Rightarrow>
        selected_optimum (ta_overall_sweep a) (best_overall_threshold a) \<and>
        map sw_f1 (ta_overall_sweep a) =
          [6667 / 10000, 6667 / 10000, 6667 / 10000, 6667 / 10000, 6667 / 10000,
           6667 / 10000, 6667 / 10000, 1, 1, 1, 1, 1, 1, 1, 1, 1, 1, 1, 1, 0, 0] \<and>
        sw_threshold (best_overall_threshold a) = 7 / 20 \<and>
        map (\<lambda>(c, best). (c, sw_threshold best)) (best_per_category_threshold a) =
          [(''object'', 7 / 20)])"
proof -
  let ?gt = "[\<lparr>ai_tags = [\<lparr>tag = ''Cat'', confidence = 9 / 10, category = ''object''\<rparr>,
                   \<lparr>tag = ''dog'', confidence = 3 / 10, category = ''object''\<rparr>],
        correct_tags = [''cat''], incorrect_tags = [''Dog''], missing_tags = []\<rparr>]"
  from best_threshold_selection [of ?gt] obtain a where a: "analyze_thresholds ?gt = Inr a"
    by blast
  from best_threshold_selection [of ?gt a] a
  have sel: "selected_optimum (ta_overall_sweep a) (best_overall_threshold a)" by blast
  have "map_sum id (\<lambda>a. (map sw_f1 (ta_overall_sweep a),
            sw_threshold (best_overall_threshold a),
            map (\<lambda>(c, best). (c, sw_threshold best)) (best_per_category_threshold a)))
          (analyze_thresholds ?gt) =
        Inr ([6667 / 10000, 6667 / 10000, 6667 / 10000, 6667 / 10000, 6667 / 10000,
           6667 / 10000, 6667 / 10000, 1, 1, 1, 1, 1, 1, 1, 1, 1, 1, 1, 1, 0, 0],
           7 / 20, [(''object'', 7 / 20)])"
    by code_simp
  with a sel show ?thesis by simp
qed

lemma overall_entry_nonempty:
  fixes samples :: "tag_sample list" and t :: rat
  defines "abv \<equiv> filter (\<lambda>s. t \<le> s_confidence s) samples"
  defines "p \<equiv> (of_nat (length (filter is_correct abv)) / of_nat (length abv) :: rat)"
  defines "r \<equiv> (if 0 < length (filter is_correct samples)
                 then of_nat (length (filter is_correct abv)) /
                      of_nat (length (filter is_correct samples))
                 else (0 :: rat))"
  assumes ne: "abv \<noteq> []"
  shows "overall_entry samples t =
     \<lparr>sw_threshold = t, sw_total_tags = length abv,
      sw_correct = length (filter is_correct abv),
      sw_incorrect = length abv - length (filter is_correct abv),
      sw_precision = py_round 4 p, sw_recall = Some (py_round 4 r),
      sw_f1 = py_round 4 (harmonic_mean p r)\<rparr>"
proof -
  have "0 \<le> p" and "0 \<le> r" by (simp_all add: p_def r_def)
  then have hm: "harmonic_mean p r = (if 0 < p + r then 2 * p * r / (p + r) else 0)"
    by (simp only: harmonic_mean_code)
  have "overall_entry samples t =
     \<lparr>sw_threshold = t, sw_total_tags = length abv,
      sw_correct = length (filter is_correct abv),
      sw_incorrect = length abv - length (filter is_correct abv),
      sw_precision = py_round 4 p, sw_recall = Some (py_round 4 r),
      sw_f1 = py_round 4 (if 0 < p + r then 2 * p * r / (p + r) else 0)\<rparr>"
    using ne unfolding overall_entry_def Let_def p_def r_def abv_def by simp
  then show ?thesis by (simp only: hm)
qed

lemma category_entry_nonempty:
  fixes cat_samples :: "tag_sample list" and t :: rat and n :: nat
  defines "abv \<equiv> filter (\<lambda>s. t \<le> s_confidence s) cat_samples"
  defines "p \<equiv> (of_nat (length (filter is_correct abv)) / of_nat (length abv) :: rat)"
  defines "r \<equiv> (if 0 < n then of_nat (length (filter is_correct abv)) / of_nat n
                 else (0 :: rat))"
  assumes ne: "abv \<noteq> []"
  shows "category_entry cat_samples n t =
     \<lparr>sw_threshold = t, sw_total_tags = length abv,
      sw_correct = length (filter is_correct abv),
      sw_incorrect = length abv - length (filter is_correct abv),
      sw_precision = py_round 4 p, sw_recall = Some (py_round 4 r),
      sw_f1 = py_round 4 (harmonic_mean p r)\<rparr>"
proof -
  have "0 \<le> p" and "0 \<le> r" by (simp_all add: p_def r_def)
  then have hm: "harmonic_mean p r = (if 0 < p + r then 2 * p * r / (p + r) else 0)"
    by (simp only: harmonic_mean_code)
  have "category_entry cat_samples n t =
     \<lparr>sw_threshold = t, sw_total_tags = length abv,
      sw_correct = length (filter is_correct abv),
      sw_incorrect = length abv - length (filter is_correct abv),
      sw_precision = py_round 4 p, sw_recall = Some (py_round 4 r),
      sw_f1 = py_round 4 (if 0 < p + r then 2 * p * r / (p + r) else 0)\<rparr>"
    using ne unfolding category_entry_def Let_def p_def r_def abv_def by simp
  then show ?thesis by (simp only: hm)
qed

lemma category_entry_empty:
  assumes "filter (\<lambda>s. t \<le> s_confidence s) cat_samples = []"
  shows "category_entry cat_samples n t =
     \<lparr>sw_threshold = t, sw_total_tags = 0, sw_correct = 0, sw_incorrect = 0,
      sw_precision = 0, sw_recall = Some 0, sw_f1 = 0\<rparr>"
  using assms by (simp add: category_entry_def)

lemma overall_entry_empty:
  assumes "filter (\<lambda>s. t \<le> s_confidence s) samples = []"
  shows "overall_entry samples t =
     \<lparr>sw_threshold = t, sw_total_tags = 0, sw_correct = 0, sw_incorrect = 0,
      sw_precision = 0, sw_recall = None, sw_f1 = 0\<rparr>"
  using assms by (simp add: overall_entry_def)

text \<open>
  Claim C3, at a corpus whose only observation has confidence 0.5. The axis point 0.5
  keeps the observation and the axis point 0.55 keeps none. The overall entry for 0.55
  has precision 0 and no recall at all, where the claim says recall 0; the entry of the
  category sweep for the same axis point does report recall 0.
\<close>

theorem overall_sweep_empty_above_lacks_recall:
  "(let samples = collect_tag_samples
        [\<lparr>ai_tags = [\<lparr>tag = ''Cat'', confidence = 1 / 2, category = ''object''\<rparr>],
          correct_tags = [''cat''], incorrect_tags = [], missing_tags = []\<rparr>]
    in thresholds ! 10 = 1 / 2 \<and> thresholds ! 11 = 11 / 20 \<and>
       filter (\<lambda>s. thresholds ! 10 \<le> s_confidence s) samples = samples \<and>
       filter (\<lambda>s. thresholds ! 11 \<le> s_confidence s) samples = [] \<and>
       overall_sweep samples ! 11 =
         \<lparr>sw_threshold = 11 / 20, sw_total_tags = 0, sw_correct = 0, sw_incorrect = 0,
          sw_precision = 0, sw_recall = None, sw_f1 = 0\<rparr> \<and>
       category_sweep samples ''object'' ! 11 =
         \<lparr>sw_threshold = 11 / 20, sw_total_tags = 0, sw_correct = 0, sw_incorrect = 0,
          sw_precision = 0, sw_recall = Some 0, sw_f1 = 0\<rparr>)"
  by code_simp

lemma summarize_confs_empty:
  "summarize_confs [] =
     \<lparr>cs_count = 0, cs_min = None, cs_max = None, cs_mean = None, cs_median = None\<rparr>"
  by (simp add: summarize_confs_def)







section \<open>Properties of tag matching\<close>





















section \<open>Properties of the evaluation of one combination\<close>
















section \<open>Properties of the handling of failed requests\<close>

lemma combo_step_failure:
  assumes "query_chat (gq_question e)
             (if gq_category e = ''group-based'' then Some GROUP_IDS else None) (Some sp) = Inl msg"
  shows "combo_step query_chat sp st e =
           st\<lparr>st_per_query := st_per_query st @
                [\<lparr>qr_question = gq_question e, qr_category = gq_category e,
                  qr_expected_count = length (gq_expected_photo_ids e),
                  qr_retrieved_count = 0, qr_precision = 0, qr_recall = 0, qr_f1 = 0,
                  qr_error = Some msg\<rparr>]\<rparr>"
  using assms by (simp add: combo_step_def Let_def)

lemma combo_loop_per_query:
  "st_per_query (foldl (combo_step query_chat sp) st golden) =
     st_per_query st @
     map (\<lambda>e. case query_chat (gq_question e)
                    (if gq_category e = ''group-based'' then Some GROUP_IDS else None)
                    (Some sp) of
                 Inr data \<Rightarrow>
                   \<lparr>qr_question = gq_question e, qr_category = gq_category e,
                    qr_expected_count = length (gq_expected_photo_ids e),
                    qr_retrieved_count = length (cd_photos data),
                    qr_precision =
                      precision (compute_photo_accuracy (cd_photos data) (gq_expected_photo_ids e)),
                    qr_recall =
                      recall (compute_photo_accuracy (cd_photos data) (gq_expected_photo_ids e)),
                    qr_f1 = f1 (compute_photo_accuracy (cd_photos data) (gq_expected_photo_ids e)),
                    qr_error = None\<rparr>
               | Inl msg \<Rightarrow>
                   \<lparr>qr_question = gq_question e, qr_category = gq_category e,
                    qr_expected_count = length (gq_expected_photo_ids e),
                    qr_retrieved_count = 0, qr_precision = 0, qr_recall = 0, qr_f1 = 0,
                    qr_error = Some msg\<rparr>) golden"
proof (induction golden arbitrary: st)
  case Nil
  show ?case by simp
next
  case (Cons e golden)
  show ?case
    unfolding foldl_Cons Cons.IH
    by (cases "query_chat (gq_question e)
                 (if gq_category e = ''group-based'' then Some GROUP_IDS else None) (Some sp)")
       (simp_all add: combo_step_def Let_def)
qed

lemma baseline_loop_results:
  "foldl (baseline_step query_chat) raw golden =
     raw @
     map (\<lambda>e. case query_chat (gq_question e)
                    (if gq_category e = ''group-based'' then Some GROUP_IDS else None) None of
                 Inr data \<Rightarrow>
                   \<lparr>rr_question = gq_question e, rr_category = gq_category e,
                    rr_expected_photo_ids = gq_expected_photo_ids e,
                    rr_retrieved_photo_ids = cd_photos data,
                    rr_response_text = cd_response data,
                    rr_latency = cd_latency data, rr_usage = cd_usage data\<rparr>
               | Inl msg \<Rightarrow>
                   \<lparr>rr_question = gq_question e, rr_category = gq_category e,
                    rr_expected_photo_ids = gq_expected_photo_ids e,
                    rr_retrieved_photo_ids = [],
                    rr_response_text = ''ERROR: '' @ msg,
                    rr_latency = [], rr_usage = []\<rparr>) golden"
proof (induction golden arbitrary: raw)
  case Nil
  show ?case by simp
next
  case (Cons e golden)
  show ?case
    unfolding foldl_Cons Cons.IH
    by (cases "query_chat (gq_question e)
                 (if gq_category e = ''group-based'' then Some GROUP_IDS else None) None")
       (simp_all add: baseline_step_def Let_def)
qed

lemma baseline_failed_query_accuracy:
  assumes "rr_retrieved_photo_ids r = []"
  shows "rr_photo_accuracy (score_result r) =
           (if rr_expected_photo_ids r = [] then \<lparr>precision = 1, recall = 1, f1 = 1\<rparr>
            else \<lparr>precision = 1, recall = 0, f1 = 0\<rparr>)"
  using assms by (simp add: score_result_def compute_photo_accuracy_def)

text \<open>
  Claim C6, at an endpoint that fails every request and two queries, the first with an
  empty expected set. Both runs go on to the second query and keep the error message.
  The sweep's evaluator records precision, recall and F1 of 0 for both. The baseline
  scores its empty retrieval with the set accuracy metric instead: the first failed
  query gets (1, 1, 1) and the second (1, 0, 0), where the claim says 0 for all three.
\<close>

theorem baseline_failed_query_scores_nonzero:
  "map rr_photo_accuracy (out_per_query (baseline_main failing_client negative_golden)) =
     [\<lparr>precision = 1, recall = 1, f1 = 1\<rparr>, \<lparr>precision = 1, recall = 0, f1 = 0\<rparr>] \<and>
   map rr_retrieved_photo_ids (out_per_query (baseline_main failing_client negative_golden)) =
     [[], []] \<and>
   map rr_response_text (out_per_query (baseline_main failing_client negative_golden)) =
     [''ERROR: timeout'', ''ERROR: timeout''] \<and>
   map rr_usage (out_per_query (baseline_main failing_client negative_golden)) = [[], []] \<and>
   bo_photo_accuracy (out_overall (baseline_main failing_client negative_golden)) =
     \<lparr>precision = 1, recall = 1 / 2, f1 = 1 / 2\<rparr> \<and>
   map qr_precision (cr_per_query (run_combo failing_client negative_golden 10 (1 / 2) (3 / 4) 1)) =
     [0, 0] \<and>
   map qr_recall (cr_per_query (run_combo failing_client negative_golden 10 (1 / 2) (3 / 4) 1)) =
     [0, 0] \<and>
   map qr_f1 (cr_per_query (run_combo failing_client negative_golden 10 (1 / 2) (3 / 4) 1)) =
     [0, 0] \<and>
   map qr_error (cr_per_query (run_combo failing_client negative_golden 10 (1 / 2) (3 / 4) 1)) =
     [Some ''timeout'', Some ''timeout''] \<and>
   cr_total_input_tokens (run_combo failing_client negative_golden 10 (1 / 2) (3 / 4) 1) = 0 \<and>
   cr_total_output_tokens (run_combo failing_client negative_golden 10 (1 / 2) (3 / 4) 1) = 0"
  by code_simp

section \<open>Properties of the grid sweep driver\<close>





















end
